theory Spec2Isabelle
  imports Complex_Main "HOL-Library.Sublist" "HOL-Library.AList"
begin

section \<open>JavaScript values\<close>

text \<open>
  \<^verbatim>\<open>src/App.jsx\<close> is untyped JavaScript. The values it stores in the fields of a contact
  and reads from the cells of an imported row are strings, numbers, booleans, \<^verbatim>\<open>null\<close>
  (the identifier of a new draft) and \<^verbatim>\<open>undefined\<close> (a key that is absent from an object).
  Numbers are kept as rationals: the code only tests them for truthiness, compares them with
  \<^verbatim>\<open>===\<close> and stores them; \<^verbatim>\<open>NaN\<close> and the infinities are left out.
\<close>

datatype jsval = JUndefined | JNull | JBool bool | JNum rat | JStr string

text \<open>The conversion to boolean that \<^verbatim>\<open>if (v)\<close>, \<^verbatim>\<open>while (v)\<close>, \<^verbatim>\<open>!v\<close>, \<^verbatim>\<open>v ? a : b\<close> and
  \<^verbatim>\<open>v || d\<close> apply.\<close>

fun truthy :: "jsval \<Rightarrow> bool" where
  "truthy JUndefined = False"
| "truthy JNull = False"
| "truthy (JBool b) = b"
| "truthy (JNum n) = (n \<noteq> 0)"
| "truthy (JStr s) = (s \<noteq> [])"

text \<open>\<^verbatim>\<open>a || b\<close>: the left operand when it is truthy, the right one else.\<close>

definition js_or :: "jsval \<Rightarrow> jsval \<Rightarrow> jsval" where
  "js_or a b = (if truthy a then a else b)"

datatype error = TypeError

section \<open>Data model\<close>

text \<open>
  A contact method is an object \<^verbatim>\<open>{ type, val }\<close>. Method objects are the only objects the
  program mutates in place (\<^verbatim>\<open>updateMethod\<close>), so they live in a store and a contact
  held in the application state refers to them by address. Contacts and arrays are never
  mutated after they are built (every change builds a new object or array), so they are
  values. The record of a contact is polymorphic in what its \<^verbatim>\<open>methods\<close> array holds:
  addresses (\<open>nat contact\<close>, a contact in the state) or the method objects themselves
  (\<open>cmethod contact\<close>, the contact read through the store, as \<^verbatim>\<open>JSON.stringify\<close> and the
  spreadsheet export see it).
\<close>

record cmethod =
  type :: jsval
  val :: jsval

record 'm contact =
  id' :: jsval
  name :: jsval
  isFav :: bool
  methods :: "'m list"

type_synonym store = "cmethod list"

definition deref :: "store \<Rightarrow> nat contact \<Rightarrow> cmethod contact" where
  "deref h c = \<lparr>id' = id' c, name = name c, isFav = isFav c, methods = map (\<lambda>a. h ! a) (methods c)\<rparr>"

text \<open>
  Allocation of the method objects of an object literal: they are appended to the store, so
  their addresses are new. The addresses a state holds are always allocated ones.
\<close>

definition alloc :: "store \<Rightarrow> cmethod contact \<Rightarrow> store \<times> nat contact" where
  "alloc h c =
     (h @ methods c,
      \<lparr>id' = id' c, name = name c, isFav = isFav c,
       methods = [length h ..< length h + length (methods c)]\<rparr>)"

section \<open>Filter and sort of the displayed list\<close>

text \<open>\<^verbatim>\<open>String.prototype.includes\<close>: the argument occurs as a contiguous run of the receiver.\<close>

fun includes_js :: "string \<Rightarrow> string \<Rightarrow> bool" where
  "includes_js [] t = (t = [])"
| "includes_js (x # xs) t = (prefix t (x # xs) \<or> includes_js xs t)"

text \<open>
  The callback of \<^verbatim>\<open>contacts.filter\<close> (lines 233-237). \<^verbatim>\<open>c.name.toLowerCase()\<close> is a method
  call on the name: it throws a TypeError when the name is not a string. The lowercasing of
  the JavaScript runtime is a parameter.
\<close>

definition matches :: "(string \<Rightarrow> string) \<Rightarrow> string \<Rightarrow> bool \<Rightarrow> 'm contact \<Rightarrow> error + bool" where
  "matches toLowerCase search showCollection c =
     (case name c of
        JStr n \<Rightarrow>
          (let matchesSearch = includes_js (toLowerCase n) (toLowerCase search);
               matchesCollection = (if showCollection then isFav c else True)
           in Inr (matchesSearch \<and> matchesCollection))
      | _ \<Rightarrow> Inl TypeError)"

text \<open>\<^verbatim>\<open>Array.prototype.filter\<close> with a callback that may throw: the callback runs on the
  elements in order and the first exception ends the call.\<close>

fun filter_js :: "('a \<Rightarrow> error + bool) \<Rightarrow> 'a list \<Rightarrow> error + 'a list" where
  "filter_js p [] = Inr []"
| "filter_js p (x # xs) =
     (case p x of
        Inl e \<Rightarrow> Inl e
      | Inr b \<Rightarrow>
          (case filter_js p xs of
             Inl e \<Rightarrow> Inl e
           | Inr ys \<Rightarrow> Inr (if b then x # ys else ys)))"

text \<open>The comparator of line 238.\<close>

definition fav_compare :: "'m contact \<Rightarrow> 'm contact \<Rightarrow> int" where
  "fav_compare a b = (if isFav b = isFav a then 0 else if isFav b then 1 else - 1)"

text \<open>
  \<^verbatim>\<open>Array.prototype.sort\<close> is stable: elements that compare equal keep their order. It is
  modelled as an insertion sort that places an element before the first later element it does
  not compare greater than.
\<close>

fun insert_sorted :: "('a \<Rightarrow> 'a \<Rightarrow> int) \<Rightarrow> 'a \<Rightarrow> 'a list \<Rightarrow> 'a list" where
  "insert_sorted cmp x [] = [x]"
| "insert_sorted cmp x (y # ys) =
     (if cmp x y \<le> 0 then x # y # ys else y # insert_sorted cmp x ys)"

definition sort_js :: "('a \<Rightarrow> 'a \<Rightarrow> int) \<Rightarrow> 'a list \<Rightarrow> 'a list" where
  "sort_js cmp xs = foldr (insert_sorted cmp) xs []"

definition filteredContacts ::
  "(string \<Rightarrow> string) \<Rightarrow> 'm contact list \<Rightarrow> string \<Rightarrow> bool \<Rightarrow> error + 'm contact list" where
  "filteredContacts toLowerCase contacts search showCollection =
     (case filter_js (matches toLowerCase search showCollection) contacts of
        Inl e \<Rightarrow> Inl e
      | Inr kept \<Rightarrow> Inr (sort_js fav_compare kept))"

text \<open>
  The displayed list in the words of the specification: the contacts whose lowercased name
  contains the lowercased search string and, in collection mode, that are favorites; all
  favorites first, each group in its prior order.
\<close>

definition spec_matches :: "(string \<Rightarrow> string) \<Rightarrow> string \<Rightarrow> bool \<Rightarrow> 'm contact \<Rightarrow> bool" where
  "spec_matches lower search showCollection c =
     ((\<exists>n. name c = JStr n \<and> sublist (lower search) (lower n)) \<and> (\<not> showCollection \<or> isFav c))"

definition spec_displayed ::
  "(string \<Rightarrow> string) \<Rightarrow> 'm contact list \<Rightarrow> string \<Rightarrow> bool \<Rightarrow> 'm contact list" where
  "spec_displayed lower contacts search showCollection =
     (let shown = filter (spec_matches lower search showCollection) contacts
      in filter isFav shown @ filter (\<lambda>c. \<not> isFav c) shown)"

text \<open>A lowercasing of the ASCII letters, for concrete runs.\<close>

definition lower_char :: "char \<Rightarrow> char" where
  "lower_char c =
     (case map_of (zip ''ABCDEFGHIJKLMNOPQRSTUVWXYZ'' ''abcdefghijklmnopqrstuvwxyz'') c of
        None \<Rightarrow> c
      | Some l \<Rightarrow> l)"

definition ascii_lower :: "string \<Rightarrow> string" where
  "ascii_lower s = map lower_char s"

section \<open>Spreadsheet rows\<close>

text \<open>
  A row is a JavaScript object from column names to cell values. It is an association list
  in insertion order; \<^verbatim>\<open>row[k] = v\<close> is \<^const>\<open>AList.update\<close> and \<^verbatim>\<open>row[k]\<close> reads
  \<^verbatim>\<open>undefined\<close> for a key that is absent.
\<close>

type_synonym row = "(string \<times> jsval) list"

definition row_get :: "row \<Rightarrow> string \<Rightarrow> jsval" where
  "row_get row k = (case map_of row k of None \<Rightarrow> JUndefined | Some v \<Rightarrow> v)"

text \<open>The decimal numeral of a counter, as a template literal prints it.\<close>

definition digit_char :: "nat \<Rightarrow> char" where
  "digit_char d =
     (if d = 0 then CHR ''0'' else if d = 1 then CHR ''1'' else if d = 2 then CHR ''2''
      else if d = 3 then CHR ''3'' else if d = 4 then CHR ''4'' else if d = 5 then CHR ''5''
      else if d = 6 then CHR ''6'' else if d = 7 then CHR ''7'' else if d = 8 then CHR ''8''
      else CHR ''9'')"

fun show_nat :: "nat \<Rightarrow> string" where
  "show_nat n = (if n < 10 then [digit_char n] else show_nat (n div 10) @ [digit_char (n mod 10)])"

declare show_nat.simps [simp del]

definition type_key :: "nat \<Rightarrow> string" where
  "type_key i = ''Method '' @ show_nat i @ '' Type''"

definition value_key :: "nat \<Rightarrow> string" where
  "value_key i = ''Method '' @ show_nat i @ '' Value''"

lemma digit_char_inj: "d < 10 \<Longrightarrow> e < 10 \<Longrightarrow> digit_char d = digit_char e \<Longrightarrow> d = e"
  unfolding digit_char_def by (simp split: if_splits) arith

lemma show_nat_nonempty: "show_nat n \<noteq> []"
  by (subst show_nat.simps) simp

lemma show_nat_inj: "show_nat n = show_nat m \<Longrightarrow> n = m"
proof (induction n arbitrary: m rule: show_nat.induct)
  case (1 n)
  show ?case
  proof (cases "n < 10")
    case small_n: True
    show ?thesis
    proof (cases "m < 10")
      case True
      with small_n "1.prems" have "digit_char n = digit_char m"
        by (simp add: show_nat.simps[of n] show_nat.simps[of m])
      with small_n True show ?thesis by (rule digit_char_inj)
    next
      case False
      with small_n "1.prems" have "show_nat (m div 10) = []"
        by (simp add: show_nat.simps[of n] show_nat.simps[of m] Cons_eq_append_conv)
      then show ?thesis by (simp add: show_nat_nonempty)
    qed
  next
    case big_n: False
    show ?thesis
    proof (cases "m < 10")
      case True
      with big_n "1.prems" have "show_nat (n div 10) = []"
        by (simp add: show_nat.simps[of n] show_nat.simps[of m] append_eq_Cons_conv)
      then show ?thesis by (simp add: show_nat_nonempty)
    next
      case False
      with big_n "1.prems" have parts:
        "show_nat (n div 10) = show_nat (m div 10)" "digit_char (n mod 10) = digit_char (m mod 10)"
        by (simp_all add: show_nat.simps[of n] show_nat.simps[of m])
      from "1.IH"[OF big_n parts(1)] have "n div 10 = m div 10" .
      moreover from parts(2) have "n mod 10 = m mod 10"
        by (intro digit_char_inj) simp_all
      ultimately show ?thesis by (metis div_mult_mod_eq)
    qed
  qed
qed

lemma type_key_inj [simp]: "type_key i = type_key j \<longleftrightarrow> i = j"
  by (auto simp: type_key_def dest: show_nat_inj)

lemma value_key_inj [simp]: "value_key i = value_key j \<longleftrightarrow> i = j"
  by (auto simp: value_key_def dest: show_nat_inj)

lemma type_key_not_value_key [simp]: "type_key i \<noteq> value_key j" "value_key j \<noteq> type_key i"
proof -
  have "show_nat i @ '' Type'' \<noteq> show_nat j @ '' Value''"
  proof
    assume "show_nat i @ '' Type'' = show_nat j @ '' Value''"
    then have "rev (show_nat i @ '' Type'') = rev (show_nat j @ '' Value'')" by (rule arg_cong)
    then show False by simp
  qed
  then show "type_key i \<noteq> value_key j" "value_key j \<noteq> type_key i"
    by (auto simp: type_key_def value_key_def)
qed

lemma method_keys_not_fixed [simp]:
  "type_key i \<noteq> ''Full Name''" "type_key i \<noteq> ''Is Favorite''"
  "value_key i \<noteq> ''Full Name''" "value_key i \<noteq> ''Is Favorite''"
  "''Full Name'' \<noteq> type_key i" "''Is Favorite'' \<noteq> type_key i"
  "''Full Name'' \<noteq> value_key i" "''Is Favorite'' \<noteq> value_key i"
  by (simp_all add: type_key_def value_key_def)

subsection \<open>Export\<close>

text \<open>The \<^verbatim>\<open>forEach\<close> of lines 170-173; \<open>i\<close> is the index of the next method.\<close>

fun add_methods :: "row \<Rightarrow> nat \<Rightarrow> cmethod list \<Rightarrow> row" where
  "add_methods row i [] = row"
| "add_methods row i (m # ms) =
     add_methods
       (AList.update (value_key (i + 1)) (val m) (AList.update (type_key (i + 1)) (type m) row))
       (i + 1) ms"

definition export_row :: "cmethod contact \<Rightarrow> row" where
  "export_row c =
     add_methods
       [(''Full Name'', name c), (''Is Favorite'', JStr (if isFav c then ''Yes'' else ''No''))]
       0 (methods c)"

subsection \<open>Import\<close>

text \<open>The \<^verbatim>\<open>while\<close> loop of lines 199-203, from counter \<open>i\<close> on.\<close>

function scan_methods :: "row \<Rightarrow> nat \<Rightarrow> cmethod list" where
  "scan_methods row i =
     (if truthy (row_get row (type_key i))
      then \<lparr>type = row_get row (type_key i),
            val = js_or (row_get row (value_key i)) (JStr '''')\<rparr>
           # scan_methods row (i + 1)
      else [])"
  by pat_completeness auto

lemma truthy_has_key: "truthy (row_get row k) \<Longrightarrow> k \<in> fst ` set row"
  by (auto simp: row_get_def split: option.splits dest: map_of_SomeD intro: rev_image_eqI)

lemma finite_type_keys: "finite {j. type_key j \<in> fst ` set row}"
proof -
  have "finite (type_key -` (fst ` set row))"
    by (rule finite_vimageI) (auto intro: injI)
  then show ?thesis by (simp add: vimage_def)
qed

termination scan_methods
proof (relation "measure (\<lambda>(row, i). card {j. i \<le> j \<and> type_key j \<in> fst ` set row})")
  show "wf (measure (\<lambda>(row, i). card {j. i \<le> j \<and> type_key j \<in> fst ` set row}))" by simp
next
  fix row :: row and i :: nat
  assume "truthy (row_get row (type_key i))"
  then have here: "type_key i \<in> fst ` set row" by (rule truthy_has_key)
  have fin: "finite {j. i \<le> j \<and> type_key j \<in> fst ` set row}"
    by (rule finite_subset[OF _ finite_type_keys[of row]]) auto
  have "i \<in> {j. i \<le> j \<and> type_key j \<in> fst ` set row}"
    using here by simp
  moreover have "i \<notin> {j. i + 1 \<le> j \<and> type_key j \<in> fst ` set row}"
    by simp
  moreover have "{j. i + 1 \<le> j \<and> type_key j \<in> fst ` set row} \<subseteq> {j. i \<le> j \<and> type_key j \<in> fst ` set row}"
    by auto
  ultimately have
    "{j. i + 1 \<le> j \<and> type_key j \<in> fst ` set row} \<subset> {j. i \<le> j \<and> type_key j \<in> fst ` set row}"
    by blast
  then have "card {j. i + 1 \<le> j \<and> type_key j \<in> fst ` set row}
             < card {j. i \<le> j \<and> type_key j \<in> fst ` set row}"
    by (rule psubset_card_mono[OF fin])
  then show "((row, i + 1), (row, i)) \<in> measure (\<lambda>(row, i). card {j. i \<le> j \<and> type_key j \<in> fst ` set row})"
    by simp
qed

declare scan_methods.simps [simp del]

text \<open>The object \<^verbatim>\<open>newContact\<close> of lines 205-209: it has no \<^verbatim>\<open>id\<close> key.\<close>

definition newContact :: "row \<Rightarrow> cmethod contact" where
  "newContact row =
     \<lparr>id' = JUndefined,
      name = row_get row ''Full Name'',
      isFav = (row_get row ''Is Favorite'' = JStr ''Yes''),
      methods = scan_methods row 1\<rparr>"

section \<open>Application state, requests and responses\<close>

datatype view = ListView | FormView

text \<open>The \<^verbatim>\<open>useState\<close> cells of the component, and the store of method objects.\<close>

record state =
  contacts :: "nat contact list"
  loading :: bool
  error :: jsval
  view :: view
  showCollection :: bool
  search :: string
  libLoaded :: bool
  formData :: "nat contact"
  heap :: store

text \<open>
  \<^verbatim>\<open>JSON.stringify\<close>, up to the layout of the text: the JSON value that is sent. A member whose
  value is \<^verbatim>\<open>undefined\<close> (or whose key is absent) is left out; \<^verbatim>\<open>null\<close> is written. The members
  of a contact are listed in the order \<^verbatim>\<open>id\<close>, \<^verbatim>\<open>name\<close>, \<^verbatim>\<open>isFav\<close>, \<^verbatim>\<open>methods\<close>; nothing below
  depends on their order.
\<close>

datatype json =
    JsonNull | JsonBool bool | JsonNum rat | JsonStr string
  | JsonArr "json list" | JsonObj "(string \<times> json) list"

fun json_of_val :: "jsval \<Rightarrow> json option" where
  "json_of_val JUndefined = None"
| "json_of_val JNull = Some JsonNull"
| "json_of_val (JBool b) = Some (JsonBool b)"
| "json_of_val (JNum n) = Some (JsonNum n)"
| "json_of_val (JStr s) = Some (JsonStr s)"

fun members :: "(string \<times> jsval) list \<Rightarrow> (string \<times> json) list" where
  "members [] = []"
| "members ((k, v) # kvs) =
     (case json_of_val v of None \<Rightarrow> members kvs | Some j \<Rightarrow> (k, j) # members kvs)"

definition stringify_method :: "cmethod \<Rightarrow> json" where
  "stringify_method m = JsonObj (members [(''type'', type m), (''val'', val m)])"

definition stringify :: "cmethod contact \<Rightarrow> json" where
  "stringify c =
     JsonObj (members [(''id'', id' c), (''name'', name c), (''isFav'', JBool (isFav c))]
              @ [(''methods'', JsonArr (map stringify_method (methods c)))])"

definition has_member :: "json \<Rightarrow> string \<Rightarrow> bool" where
  "has_member j k = (case j of JsonObj kvs \<Rightarrow> k \<in> fst ` set kvs | _ \<Rightarrow> False)"

text \<open>
  What a handler does to the outside: a \<^verbatim>\<open>fetch\<close> (verb, address, body), an \<^verbatim>\<open>alert\<close>, a
  \<^verbatim>\<open>window.confirm\<close> prompt, a \<^verbatim>\<open>console.warn\<close>. The address is \<^verbatim>\<open>API_URL\<close> or \<^verbatim>\<open>API_URL\<close>
  followed by an identifier.
\<close>

datatype verb = GET | POST | PUT | DELETE

datatype url = ApiUrl | ApiUrlWith jsval

datatype event = Fetch verb url "json option" | Alert string | Confirm string | Warn string

fun is_fetch :: "event \<Rightarrow> bool" where
  "is_fetch (Fetch v u b) = True"
| "is_fetch _ = False"

fun is_alert :: "event \<Rightarrow> bool" where
  "is_alert (Alert m) = True"
| "is_alert _ = False"

fun is_post :: "event \<Rightarrow> bool" where
  "is_post (Fetch v u b) = (v = POST)"
| "is_post _ = False"

text \<open>
  What the network gives back to one \<^verbatim>\<open>fetch\<close>: nothing yet (the handler is suspended at its
  \<^verbatim>\<open>await\<close>), a rejected promise, or a response with its \<^verbatim>\<open>ok\<close> flag and, when the body parses
  as JSON, the collection it holds.
\<close>

datatype response = Pending | Rejected | Response bool "cmethod contact list option"

text \<open>The initial values of lines 10-24.\<close>

definition init_state :: state where
  "init_state =
     \<lparr>contacts = [], loading = True, error = JNull, view = ListView, showCollection = False,
      search = '''', libLoaded = False,
      formData = \<lparr>id' = JNull, name = JStr '''', isFav = False, methods = [0]\<rparr>,
      heap = [\<lparr>type = JStr ''Phone'', val = JStr ''''\<rparr>]\<rparr>"

fun alloc_all :: "store \<Rightarrow> cmethod contact list \<Rightarrow> store \<times> nat contact list" where
  "alloc_all h [] = (h, [])"
| "alloc_all h (c # cs) =
     (let (h1, c1) = alloc h c; (h2, cs2) = alloc_all h1 cs in (h2, c1 # cs2))"

section \<open>API functions\<close>

definition placeholders :: "cmethod contact list" where
  "placeholders =
     [\<lparr>id' = JNum 1, name = JStr ''Alice Chen (Offline)'', isFav = True,
       methods = [\<lparr>type = JStr ''Phone'', val = JStr ''123-456-7890''\<rparr>]\<rparr>,
      \<lparr>id' = JNum 2, name = JStr ''Bob Jones (Offline)'', isFav = False,
       methods = [\<lparr>type = JStr ''Email'', val = JStr ''bob@example.com''\<rparr>]\<rparr>]"

text \<open>
  Every handler is a closure of one render: \<^verbatim>\<open>contacts\<close>, \<^verbatim>\<open>formData\<close> and the other state
  variables it reads are the constants bound by \<^verbatim>\<open>useState\<close> in that render, also after an
  \<^verbatim>\<open>await\<close>, whereas a setter writes the current state. A handler therefore takes the state
  of its render; \<^verbatim>\<open>fetchContacts\<close>, which \<^verbatim>\<open>saveContact\<close> calls after it has written the state,
  takes both: \<open>r\<close>, the state of the render whose closure runs (read by line 52), and \<open>s\<close>, the
  current state (written by the setters).
\<close>

definition fetchContacts :: "state \<Rightarrow> state \<Rightarrow> response \<Rightarrow> state \<times> event list" where
  "fetchContacts r s resp =
     (let s1 = s\<lparr>loading := True\<rparr>;
          req = Fetch GET ApiUrl None;
          caught =
            (let s2 = s1\<lparr>error := JNull\<rparr>;
                 s3 = (if length (contacts r) = 0
                       then (let (h, cs) = alloc_all (heap s2) placeholders
                             in s2\<lparr>heap := h, contacts := cs\<rparr>)
                       else s2)
             in (s3\<lparr>loading := False\<rparr>,
                 [req, Warn ''Backend not found, falling back to local state for preview.'']))
      in case resp of
           Pending \<Rightarrow> (s1, [req])
         | Rejected \<Rightarrow> caught
         | Response ok body \<Rightarrow>
             (if \<not> ok then caught
              else case body of
                     None \<Rightarrow> caught
                   | Some data \<Rightarrow>
                       (let (h, cs) = alloc_all (heap s1) data
                        in (s1\<lparr>heap := h, contacts := cs, error := JNull, loading := False\<rparr>,
                            [req]))))"

text \<open>\<open>now\<close> is the value of \<^verbatim>\<open>Date.now()\<close>; \<open>resp1\<close> answers the write, \<open>resp2\<close> the refresh.\<close>

definition saveContact :: "state \<Rightarrow> rat \<Rightarrow> response \<Rightarrow> response \<Rightarrow> state \<times> event list" where
  "saveContact s now resp1 resp2 =
     (if \<not> truthy (name (formData s)) then (s, [Alert ''Name is required''])
      else
        (let added = (if truthy (id' (formData s)) then formData s
                      else (formData s)\<lparr>id' := JNum now\<rparr>);
             s1 = (if truthy (id' (formData s))
                   then s\<lparr>contacts :=
                            map (\<lambda>c. if id' c = id' (formData s) then formData s else c) (contacts s)\<rparr>
                   else s\<lparr>contacts := contacts s @ [added]\<rparr>);
             s2 = s1\<lparr>view := ListView\<rparr>;
             body = stringify (deref (heap s) (formData s));
             req = (if truthy (id' (formData s))
                    then Fetch PUT (ApiUrlWith (id' (formData s))) (Some body)
                    else Fetch POST ApiUrl (Some body));
             caught = (s2, [req, Warn ''API save failed (backend might be offline). UI updated locally.''])
         in case resp1 of
              Pending \<Rightarrow> (s2, [req])
            | Rejected \<Rightarrow> caught
            | Response ok answer \<Rightarrow>
                (if \<not> ok then caught
                 else (let (s3, ev) = fetchContacts s s2 resp2 in (s3, req # ev)))))"

definition deleteContact :: "state \<Rightarrow> bool \<Rightarrow> jsval \<Rightarrow> response \<Rightarrow> state \<times> event list" where
  "deleteContact s confirmed i resp =
     (if \<not> confirmed then (s, [Confirm ''Delete this contact?''])
      else
        (let s1 = s\<lparr>contacts := filter (\<lambda>c. id' c \<noteq> i) (contacts s)\<rparr>;
             req = Fetch DELETE (ApiUrlWith i) None
         in case resp of
              Pending \<Rightarrow> (s1, [Confirm ''Delete this contact?'', req])
            | Rejected \<Rightarrow>
                (s1, [Confirm ''Delete this contact?'', req,
                      Warn ''API delete failed (backend might be offline).''])
            | Response ok body \<Rightarrow> (s1, [Confirm ''Delete this contact?'', req])))"

definition toggleFav :: "state \<Rightarrow> nat contact \<Rightarrow> response \<Rightarrow> state \<times> event list" where
  "toggleFav s contact resp =
     (let updated = contact\<lparr>isFav := \<not> isFav contact\<rparr>;
          s1 = s\<lparr>contacts := map (\<lambda>c. if id' c = id' contact then updated else c) (contacts s)\<rparr>;
          req = Fetch PUT (ApiUrlWith (id' contact)) (Some (stringify (deref (heap s) updated)))
      in case resp of
           Pending \<Rightarrow> (s1, [req])
         | Rejected \<Rightarrow> (s1, [req, Warn ''Failed to update bookmark on server''])
         | Response ok body \<Rightarrow> (s1, [req]))"

section \<open>The form editor\<close>

definition blank_method :: cmethod where
  "blank_method = \<lparr>type = JStr ''Phone'', val = JStr ''''\<rparr>"

definition addMethodField :: "state \<Rightarrow> state" where
  "addMethodField s =
     s\<lparr>heap := heap s @ [blank_method],
       formData := (formData s)\<lparr>methods := methods (formData s) @ [length (heap s)]\<rparr>\<rparr>"

datatype field = FType | FVal

text \<open>
  Lines 140-144. \<^verbatim>\<open>newMethods\<close> is a new array of the same method objects, and line 142 writes
  a field of the object at \<^verbatim>\<open>index\<close>: a write to the store. An index that is out of range
  reads \<^verbatim>\<open>undefined\<close>, and the assignment to its field throws.
\<close>

definition updateMethod :: "state \<Rightarrow> nat \<Rightarrow> field \<Rightarrow> string \<Rightarrow> error + state" where
  "updateMethod s index fld v =
     (let newMethods = methods (formData s)
      in if index < length newMethods
         then (let a = newMethods ! index;
                   m = (case fld of FType \<Rightarrow> (heap s ! a)\<lparr>type := JStr v\<rparr>
                                  | FVal \<Rightarrow> (heap s ! a)\<lparr>val := JStr v\<rparr>)
               in Inr (s\<lparr>heap := (heap s)[a := m],
                         formData := (formData s)\<lparr>methods := newMethods\<rparr>\<rparr>))
         else Inl TypeError)"

definition removeMethod :: "state \<Rightarrow> nat \<Rightarrow> state" where
  "removeMethod s index =
     (let ms = methods (formData s);
          newMethods = map fst (filter (\<lambda>(m, i). i \<noteq> index) (zip ms [0 ..< length ms]))
      in s\<lparr>formData := (formData s)\<lparr>methods := newMethods\<rparr>\<rparr>)"

definition openForm :: "state \<Rightarrow> nat contact option \<Rightarrow> state" where
  "openForm s contact =
     (case contact of
        Some c \<Rightarrow> s\<lparr>formData := c, view := FormView\<rparr>
      | None \<Rightarrow>
          s\<lparr>heap := heap s @ [blank_method],
            formData := \<lparr>id' = JNull, name = JStr '''', isFav = showCollection s,
                         methods = [length (heap s)]\<rparr>,
            view := FormView\<rparr>)"

text \<open>The \<^verbatim>\<open>onChange\<close> handlers of lines 322 and 325.\<close>

definition editName :: "state \<Rightarrow> string \<Rightarrow> state" where
  "editName s v = s\<lparr>formData := (formData s)\<lparr>name := JStr v\<rparr>\<rparr>"

definition editFav :: "state \<Rightarrow> bool \<Rightarrow> state" where
  "editFav s b = s\<lparr>formData := (formData s)\<lparr>isFav := b\<rparr>\<rparr>"

text \<open>The Cancel button of line 345.\<close>

definition cancel :: "state \<Rightarrow> state" where
  "cancel s = s\<lparr>view := ListView\<rparr>"

section \<open>Spreadsheet handlers\<close>

text \<open>The rows that line 176 hands to the spreadsheet library.\<close>

definition handleExport :: "state \<Rightarrow> event list \<times> row list option" where
  "handleExport s =
     (if \<not> libLoaded s then ([Alert ''Excel library loading...''], None)
      else ([], Some (map (\<lambda>c. export_row (deref (heap s) c)) (contacts s))))"

text \<open>
  The loop of lines 197-224 over the rows the spreadsheet library has parsed. \<open>count\<close> is the
  counter of line 196, \<open>stamp count\<close> the value of \<^verbatim>\<open>Date.now() + Math.random()\<close> in that
  iteration and \<open>resp count\<close> what the network gives back to its \<^verbatim>\<open>fetch\<close>.
\<close>

fun import_rows ::
  "state \<Rightarrow> row list \<Rightarrow> nat \<Rightarrow> (nat \<Rightarrow> rat) \<Rightarrow> (nat \<Rightarrow> response) \<Rightarrow> state \<times> event list" where
  "import_rows s [] count stamp resp =
     (s, [Alert (''Imported '' @ show_nat count @ '' contacts!'')])"
| "import_rows s (row # rows) count stamp resp =
     (let nc = newContact row;
          (h, c) = alloc (heap s) (nc\<lparr>id' := JNum (stamp count)\<rparr>);
          s1 = s\<lparr>heap := h, contacts := contacts s @ [c]\<rparr>;
          req = Fetch POST ApiUrl (Some (stringify nc))
      in case resp count of
           Pending \<Rightarrow> (s1, [req])
         | Rejected \<Rightarrow>
             (let (s2, ev) = import_rows s1 rows (count + 1) stamp resp
              in (s2, req # Warn ''Backend offline, imported locally only'' # ev))
         | Response ok body \<Rightarrow>
             (let (s2, ev) = import_rows s1 rows (count + 1) stamp resp
              in (s2, req # ev)))"

text \<open>\<open>file\<close> is \<open>None\<close> when no file was chosen, and the parsed rows of the first sheet else.\<close>

definition handleImport ::
  "state \<Rightarrow> row list option \<Rightarrow> (nat \<Rightarrow> rat) \<Rightarrow> (nat \<Rightarrow> response) \<Rightarrow> state \<times> event list" where
  "handleImport s file stamp resp =
     (if \<not> libLoaded s then (s, [Alert ''Excel library loading...''])
      else case file of
             None \<Rightarrow> (s, [])
           | Some data \<Rightarrow> import_rows s data 0 stamp resp)"

section \<open>Runs from the initial state\<close>

text \<open>
  States that the handlers reach from \<^const>\<open>init_state\<close>, used as concrete inputs below.
  \<open>loaded_empty\<close>: the spreadsheet library has loaded and the first fetch has returned an empty
  collection. \<open>offline\<close>: the library has loaded and the first fetch was rejected, so the
  collection holds the two placeholder records. \<open>dana_draft\<close>: from \<open>loaded_empty\<close>, the Add
  button was pressed and the name Dana typed into the form.
\<close>

definition loaded_empty :: state where
  "loaded_empty =
     (fst (fetchContacts init_state init_state (Response True (Some []))))\<lparr>libLoaded := True\<rparr>"

definition offline :: state where
  "offline = (fst (fetchContacts init_state init_state Rejected))\<lparr>libLoaded := True\<rparr>"

definition dana_draft :: state where
  "dana_draft = editName (openForm loaded_empty None) ''Dana''"

lemmas run_defs =
  loaded_empty_def offline_def dana_draft_def init_state_def placeholders_def blank_method_def
  fetchContacts_def saveContact_def deleteContact_def toggleFav_def openForm_def editName_def
  cancel_def updateMethod_def handleImport_def handleExport_def alloc_def deref_def Let_def
  stringify_def stringify_method_def

lemmas row_defs =
  newContact_def export_row_def row_get_def js_or_def scan_methods.simps type_key_def
  value_key_def show_nat.simps digit_char_def

section \<open>The displayed list\<close>

lemma includes_sublist: "includes_js s t \<longleftrightarrow> sublist t s"
  by (induction s) (auto simp: sublist_Cons_right)

lemma filter_js_total:
  "\<forall>x\<in>set xs. \<exists>b. p x = Inr b \<Longrightarrow> filter_js p xs = Inr (filter (\<lambda>x. p x = Inr True) xs)"
  by (induction xs) auto

lemma insert_fav_partitioned:
  assumes "\<forall>y\<in>set fs. isFav y" and "\<forall>y\<in>set ns. \<not> isFav y"
  shows "insert_sorted fav_compare x (fs @ ns) = (if isFav x then x # fs @ ns else fs @ x # ns)"
  using assms
proof (induction fs)
  case Nil
  then show ?case by (cases ns) (auto simp: fav_compare_def)
next
  case (Cons f fs)
  then show ?case by (auto simp: fav_compare_def)
qed

text \<open>The stable sort with the comparator of line 238 is the stable partition by the flag.\<close>

lemma sort_js_fav: "sort_js fav_compare xs = filter isFav xs @ filter (\<lambda>c. \<not> isFav c) xs"
proof (induction xs)
  case Nil
  show ?case by (simp add: sort_js_def)
next
  case (Cons x xs)
  have "sort_js fav_compare (x # xs) = insert_sorted fav_compare x (sort_js fav_compare xs)"
    by (simp add: sort_js_def)
  also have "\<dots> = insert_sorted fav_compare x (filter isFav xs @ filter (\<lambda>c. \<not> isFav c) xs)"
    by (simp only: Cons.IH)
  also have "\<dots> = (if isFav x then x # filter isFav xs @ filter (\<lambda>c. \<not> isFav c) xs
                   else filter isFav xs @ x # filter (\<lambda>c. \<not> isFav c) xs)"
    by (rule insert_fav_partitioned) auto
  finally show ?case by simp
qed

lemma matches_string_name:
  "name c = JStr n \<Longrightarrow>
   matches lower q sc c = Inr (sublist (lower q) (lower n) \<and> (\<not> sc \<or> isFav c))"
  by (auto simp: matches_def includes_sublist)

lemma matches_spec:
  "\<exists>n. name c = JStr n \<Longrightarrow> (matches lower q sc c = Inr True) = spec_matches lower q sc c"
  by (auto simp: matches_string_name spec_matches_def)

text \<open>
  What the filter and the sort compute when every name is a string: for every such
  collection, every search string and either setting of collection mode, the displayed list
  is exactly the contacts whose lowercased name contains the lowercased search string and
  that, in collection mode, are favorites, with all favorites before all others and each group
  in its prior order. This holds for every lowercasing function.
\<close>

theorem displayed_list_filter_sort:
  assumes "\<forall>c\<in>set cs. \<exists>n. name c = JStr n"
  shows "filteredContacts lower cs q sc = Inr (spec_displayed lower cs q sc)"
proof -
  have tot: "\<forall>c\<in>set cs. \<exists>b. matches lower q sc c = Inr b"
    using assms by (auto simp: matches_string_name)
  have same: "filter (\<lambda>c. matches lower q sc c = Inr True) cs = filter (spec_matches lower q sc) cs"
    using assms by (intro filter_cong refl) (simp add: matches_spec)
  show ?thesis
    by (simp add: filteredContacts_def filter_js_total[OF tot] same sort_js_fav spec_displayed_def)
qed

theorem displayed_list_filter_sort_witness:
  "list_all (\<lambda>c. \<exists>n. name c = JStr n)
     [\<lparr>id' = JNum 1, name = JStr ''Bob'', isFav = False, methods = [0::nat]\<rparr>,
      \<lparr>id' = JNum 2, name = JStr ''Alice'', isFav = True, methods = [1]\<rparr>,
      \<lparr>id' = JNum 3, name = JStr ''Carl'', isFav = False, methods = []\<rparr>,
      \<lparr>id' = JNum 4, name = JStr ''Walt'', isFav = False, methods = []\<rparr>,
      \<lparr>id' = JNum 5, name = JStr ''ALAN'', isFav = True, methods = []\<rparr>]
   \<and> filteredContacts ascii_lower
        [\<lparr>id' = JNum 1, name = JStr ''Bob'', isFav = False, methods = [0::nat]\<rparr>,
         \<lparr>id' = JNum 2, name = JStr ''Alice'', isFav = True, methods = [1]\<rparr>,
         \<lparr>id' = JNum 3, name = JStr ''Carl'', isFav = False, methods = []\<rparr>,
         \<lparr>id' = JNum 4, name = JStr ''Walt'', isFav = False, methods = []\<rparr>,
         \<lparr>id' = JNum 5, name = JStr ''ALAN'', isFav = True, methods = []\<rparr>]
        ''Al'' False
     = Inr [\<lparr>id' = JNum 2, name = JStr ''Alice'', isFav = True, methods = [1]\<rparr>,
            \<lparr>id' = JNum 5, name = JStr ''ALAN'', isFav = True, methods = []\<rparr>,
            \<lparr>id' = JNum 4, name = JStr ''Walt'', isFav = False, methods = []\<rparr>]"
  using displayed_list_filter_sort
          [of "[\<lparr>id' = JNum 1, name = JStr ''Bob'', isFav = False, methods = [0::nat]\<rparr>,
                \<lparr>id' = JNum 2, name = JStr ''Alice'', isFav = True, methods = [1]\<rparr>,
                \<lparr>id' = JNum 3, name = JStr ''Carl'', isFav = False, methods = []\<rparr>,
                \<lparr>id' = JNum 4, name = JStr ''Walt'', isFav = False, methods = []\<rparr>,
                \<lparr>id' = JNum 5, name = JStr ''ALAN'', isFav = True, methods = []\<rparr>]"
              ascii_lower "''Al''" False]
  by (simp add: spec_displayed_def spec_matches_def ascii_lower_def lower_char_def
        sublist_Cons_right)

text \<open>
  C1, on the collection that the import of a row without a \<^verbatim>\<open>Full Name\<close> cell leaves behind.
  The import appends a contact whose name is \<^verbatim>\<open>undefined\<close> (line 206 takes the cell as it is,
  where Save refuses a draft without a name). The displayed list should be the contacts whose
  lowercased name contains the lowercased search string; the callback of line 234 calls
  \<^verbatim>\<open>toLowerCase\<close> on the name, so on this collection the derivation throws a TypeError and
  returns no list at all, whatever the search string and the collection mode.
\<close>

theorem displayed_list_nameless_contact:
  "filteredContacts ascii_lower
     (contacts (fst (handleImport loaded_empty (Some [[(''Is Favorite'', JStr ''Yes'')]])
                       (\<lambda>k. 1700000000000) (\<lambda>k. Rejected))))
     '''' False
   = Inl TypeError
   \<and> filteredContacts ascii_lower
       (contacts (fst (handleImport loaded_empty (Some [[(''Is Favorite'', JStr ''Yes'')]])
                         (\<lambda>k. 1700000000000) (\<lambda>k. Rejected))))
       '''' False
     \<noteq> Inr (spec_displayed ascii_lower
             (contacts (fst (handleImport loaded_empty (Some [[(''Is Favorite'', JStr ''Yes'')]])
                               (\<lambda>k. 1700000000000) (\<lambda>k. Rejected))))
             '''' False)"
  by (simp add: run_defs row_defs filteredContacts_def matches_def)

section \<open>Export and import of rows\<close>

text \<open>Writing the method columns leaves every other column as it was.\<close>

lemma map_of_add_methods_frame:
  "(\<forall>j. i < j \<and> j \<le> i + length ms \<longrightarrow> k \<noteq> type_key j \<and> k \<noteq> value_key j) \<Longrightarrow>
   map_of (add_methods row i ms) k = map_of row k"
proof (induction ms arbitrary: row i)
  case Nil
  then show ?case by simp
next
  case (Cons m ms)
  have "map_of (add_methods row i (m # ms)) k
        = map_of (AList.update (value_key (i + 1)) (val m)
                    (AList.update (type_key (i + 1)) (type m) row)) k"
    using Cons.prems by (simp add: Cons.IH)
  also have "\<dots> = map_of row k"
    using Cons.prems by (simp add: update_conv')
  finally show ?case .
qed

lemma map_of_add_methods_type:
  "j < length ms \<Longrightarrow> map_of (add_methods row i ms) (type_key (i + j + 1)) = Some (type (ms ! j))"
proof (induction ms arbitrary: row i j)
  case Nil
  then show ?case by simp
next
  case (Cons m ms)
  show ?case
  proof (cases j)
    case 0
    then show ?thesis by (simp add: map_of_add_methods_frame update_conv')
  next
    case (Suc j')
    with Cons.prems have "j' < length ms" by simp
    from Cons.IH[OF this, of _ "i + 1"] Suc show ?thesis by simp
  qed
qed

lemma map_of_add_methods_value:
  "j < length ms \<Longrightarrow> map_of (add_methods row i ms) (value_key (i + j + 1)) = Some (val (ms ! j))"
proof (induction ms arbitrary: row i j)
  case Nil
  then show ?case by simp
next
  case (Cons m ms)
  show ?case
  proof (cases j)
    case 0
    then show ?thesis by (simp add: map_of_add_methods_frame update_conv')
  next
    case (Suc j')
    with Cons.prems have "j' < length ms" by simp
    from Cons.IH[OF this, of _ "i + 1"] Suc show ?thesis by simp
  qed
qed

lemma export_row_fixed:
  "row_get (export_row c) ''Full Name'' = name c"
  "row_get (export_row c) ''Is Favorite'' = JStr (if isFav c then ''Yes'' else ''No'')"
  by (simp_all add: export_row_def row_get_def map_of_add_methods_frame)

lemma export_row_methods:
  "j < length (methods c) \<Longrightarrow> row_get (export_row c) (type_key (Suc j)) = type (methods c ! j)"
  "j < length (methods c) \<Longrightarrow> row_get (export_row c) (value_key (Suc j)) = val (methods c ! j)"
  "row_get (export_row c) (type_key (Suc (length (methods c)))) = JUndefined"
  using map_of_add_methods_type[of j "methods c" _ 0] map_of_add_methods_value[of j "methods c" _ 0]
  by (simp_all add: export_row_def row_get_def map_of_add_methods_frame)

text \<open>The loop returns a list of methods when the row holds exactly that list from \<open>i\<close> on.\<close>

lemma scan_methods_reads:
  assumes "\<forall>j<length ms. row_get row (type_key (i + j)) = type (ms ! j)
              \<and> row_get row (value_key (i + j)) = val (ms ! j)"
      and "\<forall>m\<in>set ms. truthy (type m) \<and> (truthy (val m) \<or> val m = JStr '''')"
      and "\<not> truthy (row_get row (type_key (i + length ms)))"
  shows "scan_methods row i = ms"
  using assms
proof (induction ms arbitrary: i)
  case Nil
  then show ?case by (simp add: scan_methods.simps[of row i])
next
  case (Cons m ms)
  from Cons.prems(1) have here:
    "row_get row (type_key i) = type m" "row_get row (value_key i) = val m"
    by force+
  have rest: "scan_methods row (i + 1) = ms"
  proof (rule Cons.IH)
    show "\<forall>j<length ms. row_get row (type_key (i + 1 + j)) = type (ms ! j)
              \<and> row_get row (value_key (i + 1 + j)) = val (ms ! j)"
    proof (intro allI impI)
      fix j assume "j < length ms"
      then have "Suc j < length (m # ms)" by simp
      from Cons.prems(1)[rule_format, OF this]
      show "row_get row (type_key (i + 1 + j)) = type (ms ! j)
              \<and> row_get row (value_key (i + 1 + j)) = val (ms ! j)" by simp
    qed
    show "\<forall>m\<in>set ms. truthy (type m) \<and> (truthy (val m) \<or> val m = JStr '''')"
      using Cons.prems(2) by simp
    show "\<not> truthy (row_get row (type_key (i + 1 + length ms)))"
      using Cons.prems(3) by simp
  qed
  from Cons.prems(2) have ok: "truthy (type m)" "truthy (val m) \<or> val m = JStr ''''" by simp_all
  show ?case
    using here ok rest by (subst scan_methods.simps) (auto simp: js_or_def)
qed

lemma newContact_export_row:
  assumes "\<forall>m\<in>set (methods c). truthy (type m) \<and> (truthy (val m) \<or> val m = JStr '''')"
  shows "newContact (export_row c) = c\<lparr>id' := JUndefined\<rparr>"
proof -
  have "scan_methods (export_row c) 1 = methods c"
    by (rule scan_methods_reads) (use assms in \<open>simp_all add: export_row_methods\<close>)
  then show ?thesis
    by (simp add: newContact_def export_row_fixed)
qed

text \<open>What the loop has read when it stops, cell by cell.\<close>

lemma scan_methods_cells:
  "(\<forall>j<length (scan_methods row i).
       truthy (row_get row (type_key (i + j))) \<and>
       scan_methods row i ! j =
         \<lparr>type = row_get row (type_key (i + j)),
          val = js_or (row_get row (value_key (i + j))) (JStr '''')\<rparr>)
   \<and> \<not> truthy (row_get row (type_key (i + length (scan_methods row i))))"
proof (induction row i rule: scan_methods.induct)
  case (1 row i)
  show ?case
  proof (cases "truthy (row_get row (type_key i))")
    case False
    then show ?thesis by (simp add: scan_methods.simps[of row i])
  next
    case True
    note IH = "1.IH"[OF True]
    have unfold: "scan_methods row i =
        \<lparr>type = row_get row (type_key i), val = js_or (row_get row (value_key i)) (JStr '''')\<rparr>
        # scan_methods row (i + 1)"
      using True by (subst scan_methods.simps) simp
    show ?thesis
    proof (intro conjI allI impI)
      fix j assume j: "j < length (scan_methods row i)"
      show "truthy (row_get row (type_key (i + j)))"
      proof (cases j)
        case 0
        then show ?thesis using True by simp
      next
        case (Suc j')
        with j unfold have "j' < length (scan_methods row (i + 1))" by simp
        with IH have "truthy (row_get row (type_key (i + 1 + j')))" by blast
        then show ?thesis using Suc by simp
      qed
      show "scan_methods row i ! j =
         \<lparr>type = row_get row (type_key (i + j)),
          val = js_or (row_get row (value_key (i + j))) (JStr '''')\<rparr>"
      proof (cases j)
        case 0
        then show ?thesis by (simp add: unfold)
      next
        case (Suc j')
        with j unfold have "j' < length (scan_methods row (i + 1))" by simp
        with IH have "scan_methods row (i + 1) ! j' =
           \<lparr>type = row_get row (type_key (i + 1 + j')),
            val = js_or (row_get row (value_key (i + 1 + j'))) (JStr '''')\<rparr>" by blast
        then show ?thesis using Suc by (simp add: unfold)
      qed
    next
      from IH have "\<not> truthy (row_get row (type_key (i + 1 + length (scan_methods row (i + 1)))))"
        by blast
      then show "\<not> truthy (row_get row (type_key (i + length (scan_methods row i))))"
        by (simp add: unfold)
    qed
  qed
qed

text \<open>
  Every method that the import builds has a truthy type and a value that is truthy or the
  empty string; so has the blank method of the form, whose type the form only replaces by one
  of its four options and whose value it only replaces by a string.
\<close>

lemma newContact_methods_kept:
  "\<forall>m\<in>set (methods (newContact row)). truthy (type m) \<and> (truthy (val m) \<or> val m = JStr '''')"
proof -
  have "\<forall>j<length (scan_methods row 1).
          truthy (type (scan_methods row 1 ! j)) \<and>
          (truthy (val (scan_methods row 1 ! j)) \<or> val (scan_methods row 1 ! j) = JStr '''')"
    using scan_methods_cells[of row 1] by (auto simp: js_or_def)
  then show ?thesis
    by (auto simp: newContact_def in_set_conv_nth)
qed

text \<open>
  C2. Take a collection in which every method has a truthy type (every non-empty string is)
  and a value that is truthy or the empty string (every string is). Export maps it to one row
  per contact, and the record that import reconstructs from the row of a contact has the name,
  the favorite flag and the sequence of methods of that contact; it has no identifier yet.
\<close>

theorem export_import_round_trip:
  assumes "libLoaded s"
      and "\<forall>c\<in>set (contacts s). \<forall>m\<in>set (methods (deref (heap s) c)).
             truthy (type m) \<and> (truthy (val m) \<or> val m = JStr '''')"
  shows "handleExport s = ([], Some (map (\<lambda>c. export_row (deref (heap s) c)) (contacts s)))
         \<and> map newContact (map (\<lambda>c. export_row (deref (heap s) c)) (contacts s))
           = map (\<lambda>c. (deref (heap s) c)\<lparr>id' := JUndefined\<rparr>) (contacts s)"
  using assms by (simp add: handleExport_def newContact_export_row)

theorem export_import_round_trip_witness:
  "libLoaded offline
   \<and> list_all (\<lambda>c. list_all (\<lambda>m. truthy (type m) \<and> (truthy (val m) \<or> val m = JStr ''''))
                        (methods (deref (heap offline) c)))
        (contacts offline)
   \<and> handleExport offline
       = ([], Some [[(''Full Name'', JStr ''Alice Chen (Offline)''), (''Is Favorite'', JStr ''Yes''),
                     (''Method 1 Type'', JStr ''Phone''), (''Method 1 Value'', JStr ''123-456-7890'')],
                    [(''Full Name'', JStr ''Bob Jones (Offline)''), (''Is Favorite'', JStr ''No''),
                     (''Method 1 Type'', JStr ''Email''), (''Method 1 Value'', JStr ''bob@example.com'')]])
   \<and> map newContact (map (\<lambda>c. export_row (deref (heap offline) c)) (contacts offline))
       = [\<lparr>id' = JUndefined, name = JStr ''Alice Chen (Offline)'', isFav = True,
           methods = [\<lparr>type = JStr ''Phone'', val = JStr ''123-456-7890''\<rparr>]\<rparr>,
          \<lparr>id' = JUndefined, name = JStr ''Bob Jones (Offline)'', isFav = False,
           methods = [\<lparr>type = JStr ''Email'', val = JStr ''bob@example.com''\<rparr>]\<rparr>]"
proof -
  have lib: "libLoaded offline"
    by (simp add: run_defs)
  have kept: "\<forall>c\<in>set (contacts offline). \<forall>m\<in>set (methods (deref (heap offline) c)).
                truthy (type m) \<and> (truthy (val m) \<or> val m = JStr '''')"
    by (simp add: run_defs)
  have rows: "map (\<lambda>c. export_row (deref (heap offline) c)) (contacts offline)
       = [[(''Full Name'', JStr ''Alice Chen (Offline)''), (''Is Favorite'', JStr ''Yes''),
           (''Method 1 Type'', JStr ''Phone''), (''Method 1 Value'', JStr ''123-456-7890'')],
          [(''Full Name'', JStr ''Bob Jones (Offline)''), (''Is Favorite'', JStr ''No''),
           (''Method 1 Type'', JStr ''Email''), (''Method 1 Value'', JStr ''bob@example.com'')]]"
    by (simp add: run_defs row_defs)
  have vals: "map (\<lambda>c. (deref (heap offline) c)\<lparr>id' := JUndefined\<rparr>) (contacts offline)
       = [\<lparr>id' = JUndefined, name = JStr ''Alice Chen (Offline)'', isFav = True,
           methods = [\<lparr>type = JStr ''Phone'', val = JStr ''123-456-7890''\<rparr>]\<rparr>,
          \<lparr>id' = JUndefined, name = JStr ''Bob Jones (Offline)'', isFav = False,
           methods = [\<lparr>type = JStr ''Email'', val = JStr ''bob@example.com''\<rparr>]\<rparr>]"
    by (simp add: run_defs)
  from kept have kept': "list_all (\<lambda>c. list_all (\<lambda>m. truthy (type m) \<and> (truthy (val m) \<or> val m = JStr ''''))
                        (methods (deref (heap offline) c)))
        (contacts offline)"
    by (simp only: list_all_iff)
  from export_import_round_trip[OF lib kept] lib kept' show ?thesis
    by (simp only: rows vals simp_thms)
qed

text \<open>
  C6. For every row, the reconstructed contact has as name the \<^verbatim>\<open>Full Name\<close> cell
  (\<^verbatim>\<open>undefined\<close> when the row has none) and is a favorite exactly when the \<^verbatim>\<open>Is Favorite\<close> cell
  is the string \<^verbatim>\<open>Yes\<close>. Its methods are read from \<^verbatim>\<open>Method 1 Type\<close>, \<^verbatim>\<open>Method 2 Type\<close>, ... up
  to the first of these cells that is absent or falsy (the empty string, the number 0, the
  boolean false); the method at position \<open>j\<close> has that cell as type and the
  \<^verbatim>\<open>Method j Value\<close> cell as value, replaced by the empty string when the value cell is absent or
  falsy.
\<close>

theorem import_row_reconstruction:
  "name (newContact row) = row_get row ''Full Name''
   \<and> isFav (newContact row) = (row_get row ''Is Favorite'' = JStr ''Yes'')
   \<and> (\<forall>j<length (methods (newContact row)).
         truthy (row_get row (type_key (Suc j))) \<and>
         methods (newContact row) ! j =
           \<lparr>type = row_get row (type_key (Suc j)),
            val = js_or (row_get row (value_key (Suc j))) (JStr '''')\<rparr>)
   \<and> \<not> truthy (row_get row (type_key (Suc (length (methods (newContact row))))))"
  using scan_methods_cells[of row 1] by (simp add: newContact_def)

text \<open>The example of the specification.\<close>

theorem import_row_reconstruction_witness:
  "newContact [(''Full Name'', JStr ''Carl''), (''Is Favorite'', JStr ''Yes''),
               (''Method 1 Type'', JStr ''Phone''), (''Method 1 Value'', JStr ''555'')]
   = \<lparr>id' = JUndefined, name = JStr ''Carl'', isFav = True,
      methods = [\<lparr>type = JStr ''Phone'', val = JStr ''555''\<rparr>]\<rparr>
   \<and> type_key (Suc 0) = ''Method 1 Type'' \<and> value_key (Suc 0) = ''Method 1 Value''
   \<and> \<not> truthy (row_get [(''Full Name'', JStr ''Carl''), (''Is Favorite'', JStr ''Yes''),
                         (''Method 1 Type'', JStr ''Phone''), (''Method 1 Value'', JStr ''555'')]
                        (type_key (Suc (Suc 0))))"
  using import_row_reconstruction
          [of "[(''Full Name'', JStr ''Carl''), (''Is Favorite'', JStr ''Yes''),
                (''Method 1 Type'', JStr ''Phone''), (''Method 1 Value'', JStr ''555'')]"]
  by (simp add: row_defs)

text \<open>
  A row whose \<^verbatim>\<open>Method 1 Value\<close> cell is the number 0 and whose \<^verbatim>\<open>Method 2 Type\<close> cell is the
  boolean false: the value cell is present, yet the method gets the empty string and not the
  cell; the type cell is present and not empty, yet the scan stops there and the third method
  is not read.
\<close>

theorem import_row_falsy_cells:
  "row_get [(''Full Name'', JStr ''Carl''), (''Is Favorite'', JStr ''Yes''),
            (''Method 1 Type'', JStr ''Phone''), (''Method 1 Value'', JNum 0),
            (''Method 2 Type'', JBool False), (''Method 2 Value'', JStr ''x''),
            (''Method 3 Type'', JStr ''Email''), (''Method 3 Value'', JStr ''c@x.com'')]
           ''Method 1 Value'' = JNum 0
   \<and> methods (newContact
        [(''Full Name'', JStr ''Carl''), (''Is Favorite'', JStr ''Yes''),
         (''Method 1 Type'', JStr ''Phone''), (''Method 1 Value'', JNum 0),
         (''Method 2 Type'', JBool False), (''Method 2 Value'', JStr ''x''),
         (''Method 3 Type'', JStr ''Email''), (''Method 3 Value'', JStr ''c@x.com'')])
     = [\<lparr>type = JStr ''Phone'', val = JStr ''''\<rparr>]"
  by (simp add: row_defs)

section \<open>Saving a draft\<close>

text \<open>
  C7. Save on a draft whose name is the empty string only shows the prompt
  \<^verbatim>\<open>Name is required\<close>: the state is returned as it was (the collection is neither extended nor
  rewritten and the view stays where it is, on the form), and the prompt is the only effect, so
  no request is sent.
\<close>

theorem save_empty_name_rejected:
  "name (formData s) = JStr '''' \<Longrightarrow>
   saveContact s now resp1 resp2 = (s, [Alert ''Name is required''])
   \<and> filter is_fetch (snd (saveContact s now resp1 resp2)) = []"
  by (simp add: saveContact_def)

theorem save_empty_name_rejected_witness:
  "name (formData (openForm loaded_empty None)) = JStr ''''
   \<and> view (openForm loaded_empty None) = FormView
   \<and> saveContact (openForm loaded_empty None) 0 (Response True None) (Response True (Some []))
       = (openForm loaded_empty None, [Alert ''Name is required''])
   \<and> filter is_fetch
        (snd (saveContact (openForm loaded_empty None) 0 (Response True None)
                (Response True (Some []))))
       = []"
  using save_empty_name_rejected
          [of "openForm loaded_empty None" 0 "Response True None" "Response True (Some [])"]
  by (simp add: openForm_def loaded_empty_def init_state_def fetchContacts_def)

section \<open>Deleting a contact\<close>

text \<open>
  C8. For every identifier: when the confirmation is declined, delete returns the state as it
  was and its only effect is the prompt, so no request is sent. When it is confirmed, the
  contacts with that identifier are gone from the collection whatever the network gives back;
  in particular they are already gone while the request is still pending, and the request was
  issued after the prompt.
\<close>

theorem delete_needs_confirmation:
  "deleteContact s False i resp = (s, [Confirm ''Delete this contact?''])
   \<and> filter is_fetch (snd (deleteContact s False i resp)) = []
   \<and> contacts (fst (deleteContact s True i resp)) = filter (\<lambda>c. id' c \<noteq> i) (contacts s)
   \<and> deleteContact s True i Pending
       = (s\<lparr>contacts := filter (\<lambda>c. id' c \<noteq> i) (contacts s)\<rparr>,
          [Confirm ''Delete this contact?'', Fetch DELETE (ApiUrlWith i) None])"
  by (simp add: deleteContact_def Let_def split: response.splits)

section \<open>Toggling the favorite flag\<close>

text \<open>
  C5. Take the contact at any position of the collection and toggle its flag, then toggle the
  flag of the contact that is now at that position. After the first toggle the flag is
  flipped; after the second the contact is the original one again, so its flag has its
  original value. Whatever the network gives back, the requests issued are exactly two, both
  PUT to the address of the contact, the first carrying the whole record with the flag
  flipped and the second the whole original record.
\<close>

theorem toggle_twice_restores:
  assumes "i < length (contacts s)"
  shows "(let c = contacts s ! i;
              (s1, ev1) = toggleFav s c resp1;
              (s2, ev2) = toggleFav s1 (contacts s1 ! i) resp2
          in isFav (contacts s1 ! i) = (\<not> isFav c)
             \<and> contacts s2 ! i = c
             \<and> heap s2 = heap s
             \<and> filter is_fetch (ev1 @ ev2) =
                 [Fetch PUT (ApiUrlWith (id' c))
                    (Some (stringify (deref (heap s) (c\<lparr>isFav := \<not> isFav c\<rparr>)))),
                  Fetch PUT (ApiUrlWith (id' c)) (Some (stringify (deref (heap s) c)))])"
  using assms by (cases resp1; cases resp2) (simp_all add: toggleFav_def Let_def)

theorem toggle_twice_restores_witness:
  "0 < length (contacts offline)
   \<and> deref (heap offline) (contacts offline ! 0) = placeholders ! 0
   \<and> (let c = contacts offline ! 0;
           (s1, ev1) = toggleFav offline c Rejected;
           (s2, ev2) = toggleFav s1 (contacts s1 ! 0) (Response True None)
       in isFav (contacts s1 ! 0) = (\<not> isFav c)
          \<and> contacts s2 ! 0 = c
          \<and> heap s2 = heap offline
          \<and> filter is_fetch (ev1 @ ev2) =
              [Fetch PUT (ApiUrlWith (id' c))
                 (Some (stringify (deref (heap offline) (c\<lparr>isFav := \<not> isFav c\<rparr>)))),
               Fetch PUT (ApiUrlWith (id' c)) (Some (stringify (deref (heap offline) c)))])
   \<and> snd (toggleFav offline (contacts offline ! 0) Rejected)
       = [Fetch PUT (ApiUrlWith (JNum 1))
            (Some (JsonObj [(''id'', JsonNum 1), (''name'', JsonStr ''Alice Chen (Offline)''),
                            (''isFav'', JsonBool False),
                            (''methods'', JsonArr [JsonObj [(''type'', JsonStr ''Phone''),
                                                           (''val'', JsonStr ''123-456-7890'')]])])),
          Warn ''Failed to update bookmark on server'']"
proof -
  have len: "0 < length (contacts offline)"
    by (simp add: run_defs)
  have first: "deref (heap offline) (contacts offline ! 0) = placeholders ! 0"
    by (simp add: run_defs)
  have sent: "snd (toggleFav offline (contacts offline ! 0) Rejected)
       = [Fetch PUT (ApiUrlWith (JNum 1))
            (Some (JsonObj [(''id'', JsonNum 1), (''name'', JsonStr ''Alice Chen (Offline)''),
                            (''isFav'', JsonBool False),
                            (''methods'', JsonArr [JsonObj [(''type'', JsonStr ''Phone''),
                                                           (''val'', JsonStr ''123-456-7890'')]])])),
          Warn ''Failed to update bookmark on server'']"
    by (simp add: run_defs)
  from toggle_twice_restores[OF len, of Rejected "Response True None"] len first sent
  show ?thesis by (simp only: simp_thms)
qed

section \<open>Importing a file\<close>

lemma nth_fresh_block: "map (\<lambda>a. (h @ ms @ ext) ! a) [length h ..< length h + length ms] = ms"
  by (rule nth_equalityI) (simp_all add: nth_append)

lemma deref_alloc: "deref (fst (alloc h c) @ ext) (snd (alloc h c)) = c"
  using nth_fresh_block[of h "methods c" ext] by (simp add: deref_def alloc_def)

text \<open>The effects of the loop when every request is answered or rejected.\<close>

lemma import_rows_events:
  assumes "\<forall>k. n \<le> k \<and> k < n + length rows \<longrightarrow> resp k \<noteq> Pending"
  shows "filter is_fetch (snd (import_rows s rows n stamp resp))
           = map (\<lambda>row. Fetch POST ApiUrl (Some (stringify (newContact row)))) rows
         \<and> filter is_alert (snd (import_rows s rows n stamp resp))
           = [Alert (''Imported '' @ show_nat (n + length rows) @ '' contacts!'')]
         \<and> last (snd (import_rows s rows n stamp resp))
           = Alert (''Imported '' @ show_nat (n + length rows) @ '' contacts!'')"
  using assms
proof (induction rows arbitrary: s n)
  case Nil
  then show ?case by simp
next
  case (Cons row rows)
  from Cons.prems have here: "resp n \<noteq> Pending" by simp
  from Cons.prems have later: "\<forall>k. n + 1 \<le> k \<and> k < n + 1 + length rows \<longrightarrow> resp k \<noteq> Pending"
    by simp
  note IH = Cons.IH[OF later]
  have nonempty: "snd (import_rows s' rows (n + 1) stamp resp) \<noteq> []" for s'
    using IH[of s'] by auto
  show ?case
    using here IH nonempty
    by (cases "resp n") (simp_all add: Let_def split_def alloc_def)
qed

text \<open>The state after the loop: the store and the collection have grown at their ends.\<close>

lemma import_rows_state:
  assumes "\<forall>k. n \<le> k \<and> k < n + length rows \<longrightarrow> resp k \<noteq> Pending"
  shows "\<exists>ext cs. fst (import_rows s rows n stamp resp)
                     = s\<lparr>heap := heap s @ ext, contacts := contacts s @ cs\<rparr>
           \<and> length cs = length rows
           \<and> (\<forall>k<length rows. deref (heap s @ ext) (cs ! k)
                  = (newContact (rows ! k))\<lparr>id' := JNum (stamp (n + k))\<rparr>)"
  using assms
proof (induction rows arbitrary: s n)
  case Nil
  have "fst (import_rows s [] n stamp resp) = s\<lparr>heap := heap s @ [], contacts := contacts s @ []\<rparr>"
    by simp
  then show ?case by (intro exI[of _ "[]"]) simp
next
  case (Cons row rows)
  define nc where "nc = (newContact row)\<lparr>id' := JNum (stamp n)\<rparr>"
  define c where "c = snd (alloc (heap s) nc)"
  define s1 where "s1 = s\<lparr>heap := heap s @ methods nc, contacts := contacts s @ [c]\<rparr>"
  from Cons.prems have here: "resp n \<noteq> Pending" by simp
  from Cons.prems have later: "\<forall>k. n + 1 \<le> k \<and> k < n + 1 + length rows \<longrightarrow> resp k \<noteq> Pending"
    by simp
  have step: "fst (import_rows s (row # rows) n stamp resp)
              = fst (import_rows s1 rows (n + 1) stamp resp)"
    using here by (cases "resp n") (simp_all add: Let_def split_def s1_def nc_def c_def alloc_def)
  from Cons.IH[OF later, of s1] obtain ext cs where
    fin: "fst (import_rows s1 rows (n + 1) stamp resp)
               = s1\<lparr>heap := heap s1 @ ext, contacts := contacts s1 @ cs\<rparr>"
    and len: "length cs = length rows"
    and vals: "\<forall>k<length rows. deref (heap s1 @ ext) (cs ! k)
                  = (newContact (rows ! k))\<lparr>id' := JNum (stamp (n + 1 + k))\<rparr>"
    by blast
  have fin': "fst (import_rows s (row # rows) n stamp resp)
        = s\<lparr>heap := heap s @ (methods nc @ ext), contacts := contacts s @ (c # cs)\<rparr>"
    unfolding step fin by (simp add: s1_def)
  have first: "deref (heap s @ methods nc @ ext) c = nc"
    using deref_alloc[of "heap s" nc ext] by (simp add: c_def alloc_def)
  have "\<forall>k<length (row # rows). deref (heap s @ (methods nc @ ext)) ((c # cs) ! k)
                  = (newContact ((row # rows) ! k))\<lparr>id' := JNum (stamp (n + k))\<rparr>"
  proof (intro allI impI)
    fix k assume k: "k < length (row # rows)"
    show "deref (heap s @ (methods nc @ ext)) ((c # cs) ! k)
                  = (newContact ((row # rows) ! k))\<lparr>id' := JNum (stamp (n + k))\<rparr>"
    proof (cases k)
      case 0
      then show ?thesis using first by (simp add: nc_def)
    next
      case (Suc k')
      with k have "k' < length rows" by simp
      with vals have "deref (heap s1 @ ext) (cs ! k')
                  = (newContact (rows ! k'))\<lparr>id' := JNum (stamp (n + 1 + k'))\<rparr>" by blast
      then show ?thesis using Suc by (simp add: s1_def)
    qed
  qed
  with fin' len show ?case
    by (intro exI[of _ "methods nc @ ext"] exI[of _ "c # cs"]) simp
qed

text \<open>
  C9. When the library is loaded and a file with parsed rows is chosen, and every request is
  answered or rejected (none stays pending): the state changes only by new method objects at
  the end of the store and by one new contact per row at the end of the collection, in the
  order of the rows; the contact for row \<open>k\<close> is the one reconstructed from that row, with the
  identifier synthesized in that iteration. The requests are exactly one POST per row, in the
  order of the rows, to the collection address, each with the reconstructed contact as body.
  Whichever requests are rejected or answered with an error, there is exactly one notice, it is
  the last effect, and the count it reports is the number of rows.
\<close>

theorem import_appends_posts_and_reports:
  assumes "libLoaded s" and "\<forall>k<length rows. resp k \<noteq> Pending"
  shows "(\<exists>ext cs. fst (handleImport s (Some rows) stamp resp)
                     = s\<lparr>heap := heap s @ ext, contacts := contacts s @ cs\<rparr>
            \<and> length cs = length rows
            \<and> (\<forall>k<length rows. deref (heap s @ ext) (cs ! k)
                   = (newContact (rows ! k))\<lparr>id' := JNum (stamp k)\<rparr>))
         \<and> filter is_fetch (snd (handleImport s (Some rows) stamp resp))
             = map (\<lambda>row. Fetch POST ApiUrl (Some (stringify (newContact row)))) rows
         \<and> filter is_alert (snd (handleImport s (Some rows) stamp resp))
             = [Alert (''Imported '' @ show_nat (length rows) @ '' contacts!'')]
         \<and> last (snd (handleImport s (Some rows) stamp resp))
             = Alert (''Imported '' @ show_nat (length rows) @ '' contacts!'')"
proof -
  from assms(2) have settled: "\<forall>k. 0 \<le> k \<and> k < 0 + length rows \<longrightarrow> resp k \<noteq> Pending"
    by simp
  show ?thesis
    using import_rows_state[OF settled, of s stamp] import_rows_events[OF settled, of s stamp]
          assms(1)
    by (simp add: handleImport_def)
qed

theorem import_appends_posts_and_reports_witness:
  "libLoaded offline
   \<and> list_all (\<lambda>k. (\<lambda>k. if k = 0 then Rejected else Response False None) k \<noteq> Pending)
        [0 ..< length [[(''Full Name'', JStr ''Carl''), (''Is Favorite'', JStr ''Yes''),
                        (''Method 1 Type'', JStr ''Phone''), (''Method 1 Value'', JStr ''555'')],
                       [(''Full Name'', JStr ''Dora'')]]]
   \<and> snd (handleImport offline
            (Some [[(''Full Name'', JStr ''Carl''), (''Is Favorite'', JStr ''Yes''),
                    (''Method 1 Type'', JStr ''Phone''), (''Method 1 Value'', JStr ''555'')],
                   [(''Full Name'', JStr ''Dora'')]])
            (\<lambda>k. 1700000000000 + of_nat k) (\<lambda>k. if k = 0 then Rejected else Response False None))
     = [Fetch POST ApiUrl
          (Some (JsonObj [(''name'', JsonStr ''Carl''), (''isFav'', JsonBool True),
                          (''methods'', JsonArr [JsonObj [(''type'', JsonStr ''Phone''),
                                                         (''val'', JsonStr ''555'')]])])),
        Warn ''Backend offline, imported locally only'',
        Fetch POST ApiUrl
          (Some (JsonObj [(''name'', JsonStr ''Dora''), (''isFav'', JsonBool False),
                          (''methods'', JsonArr [])])),
        Alert ''Imported 2 contacts!'']
   \<and> map (deref (heap (fst (handleImport offline
            (Some [[(''Full Name'', JStr ''Carl''), (''Is Favorite'', JStr ''Yes''),
                    (''Method 1 Type'', JStr ''Phone''), (''Method 1 Value'', JStr ''555'')],
                   [(''Full Name'', JStr ''Dora'')]])
            (\<lambda>k. 1700000000000 + of_nat k)
            (\<lambda>k. if k = 0 then Rejected else Response False None)))))
        (contacts (fst (handleImport offline
            (Some [[(''Full Name'', JStr ''Carl''), (''Is Favorite'', JStr ''Yes''),
                    (''Method 1 Type'', JStr ''Phone''), (''Method 1 Value'', JStr ''555'')],
                   [(''Full Name'', JStr ''Dora'')]])
            (\<lambda>k. 1700000000000 + of_nat k)
            (\<lambda>k. if k = 0 then Rejected else Response False None))))
     = placeholders
       @ [\<lparr>id' = JNum 1700000000000, name = JStr ''Carl'', isFav = True,
           methods = [\<lparr>type = JStr ''Phone'', val = JStr ''555''\<rparr>]\<rparr>,
          \<lparr>id' = JNum 1700000000001, name = JStr ''Dora'', isFav = False, methods = []\<rparr>]"
  using import_appends_posts_and_reports
          [of offline
              "[[(''Full Name'', JStr ''Carl''), (''Is Favorite'', JStr ''Yes''),
                 (''Method 1 Type'', JStr ''Phone''), (''Method 1 Value'', JStr ''555'')],
                [(''Full Name'', JStr ''Dora'')]]"
              "\<lambda>k. if k = 0 then Rejected else Response False None"
              "\<lambda>k. 1700000000000 + of_nat k"]
  by (simp add: run_defs row_defs)

section \<open>The body of a create request\<close>

lemma stringify_id_member: "has_member (stringify c) ''id'' = (id' c \<noteq> JUndefined)"
  by (cases "id' c"; cases "json_of_val (name c)")
     (simp_all add: stringify_def has_member_def)

lemma saveContact_create_request:
  assumes "truthy (name (formData s))" and "\<not> truthy (id' (formData s))"
  shows "filter is_post (snd (saveContact s now resp1 resp2))
         = [Fetch POST ApiUrl (Some (stringify (deref (heap s) (formData s))))]"
  using assms
  by (cases resp1; cases resp2)
     (simp_all add: saveContact_def fetchContacts_def Let_def split_def split: option.splits)

text \<open>
  C4. For each imported row the request is a POST whose body is the contact reconstructed from
  the row, and that body has no \<^verbatim>\<open>id\<close> member. Saving a named draft whose identifier is falsy
  sends exactly one POST, whose body is the draft as it stands: it has an \<^verbatim>\<open>id\<close> member
  unless the identifier of the draft is \<^verbatim>\<open>undefined\<close>, so the draft that the Add button opens
  is sent with its \<^verbatim>\<open>id\<close> member \<^verbatim>\<open>null\<close>.
\<close>

theorem create_request_bodies:
  "(libLoaded s \<and> (\<forall>k<length rows. resp k \<noteq> Pending) \<longrightarrow>
      filter is_post (snd (handleImport s (Some rows) stamp resp))
        = map (\<lambda>row. Fetch POST ApiUrl (Some (stringify (newContact row)))) rows)
   \<and> \<not> has_member (stringify (newContact row)) ''id''
   \<and> (truthy (name (formData s)) \<and> \<not> truthy (id' (formData s)) \<longrightarrow>
        filter is_post (snd (saveContact s now resp1 resp2))
          = [Fetch POST ApiUrl (Some (stringify (deref (heap s) (formData s))))]
        \<and> has_member (stringify (deref (heap s) (formData s))) ''id''
            = (id' (formData s) \<noteq> JUndefined))
   \<and> id' (formData (openForm s None)) = JNull"
proof (intro conjI impI)
  assume hyp: "libLoaded s \<and> (\<forall>k<length rows. resp k \<noteq> Pending)"
  then have settled: "\<forall>k. 0 \<le> k \<and> k < 0 + length rows \<longrightarrow> resp k \<noteq> Pending"
    by simp
  have posts: "filter is_post (map (\<lambda>row. Fetch POST ApiUrl (Some (stringify (newContact row)))) rs)
               = map (\<lambda>row. Fetch POST ApiUrl (Some (stringify (newContact row)))) rs" for rs
    by (induction rs) simp_all
  have only_fetches: "filter is_post ev = filter is_post (filter is_fetch ev)" for ev
  proof (induction ev)
    case Nil
    show ?case by simp
  next
    case (Cons e ev)
    then show ?case by (cases e) simp_all
  qed
  have "filter is_post (snd (import_rows s rows 0 stamp resp))
        = map (\<lambda>row. Fetch POST ApiUrl (Some (stringify (newContact row)))) rows"
    using import_rows_events[OF settled, of s stamp]
    by (subst only_fetches) (simp add: posts)
  with hyp show "filter is_post (snd (handleImport s (Some rows) stamp resp))
        = map (\<lambda>row. Fetch POST ApiUrl (Some (stringify (newContact row)))) rows"
    by (simp add: handleImport_def)
next
  show "\<not> has_member (stringify (newContact row)) ''id''"
    by (simp add: stringify_id_member newContact_def)
next
  assume "truthy (name (formData s)) \<and> \<not> truthy (id' (formData s))"
  then show "filter is_post (snd (saveContact s now resp1 resp2))
          = [Fetch POST ApiUrl (Some (stringify (deref (heap s) (formData s))))]"
    by (simp add: saveContact_create_request)
next
  show "has_member (stringify (deref (heap s) (formData s))) ''id''
            = (id' (formData s) \<noteq> JUndefined)"
    by (simp add: stringify_id_member deref_def)
next
  show "id' (formData (openForm s None)) = JNull"
    by (simp add: openForm_def)
qed

theorem create_request_bodies_witness:
  "libLoaded dana_draft
   \<and> list_all (\<lambda>k. (\<lambda>k. Rejected) k \<noteq> Pending) [0 ..< length [[(''Full Name'', JStr ''Carl'')]]]
   \<and> truthy (name (formData dana_draft)) \<and> \<not> truthy (id' (formData dana_draft))
   \<and> filter is_post (snd (handleImport dana_draft (Some [[(''Full Name'', JStr ''Carl'')]])
                            (\<lambda>k. 1700000000000) (\<lambda>k. Rejected)))
       = [Fetch POST ApiUrl
            (Some (JsonObj [(''name'', JsonStr ''Carl''), (''isFav'', JsonBool False),
                            (''methods'', JsonArr [])]))]
   \<and> filter is_post (snd (saveContact dana_draft 1700000000000 (Response True None) Rejected))
       = [Fetch POST ApiUrl
            (Some (JsonObj [(''id'', JsonNull), (''name'', JsonStr ''Dana''),
                            (''isFav'', JsonBool False),
                            (''methods'', JsonArr [JsonObj [(''type'', JsonStr ''Phone''),
                                                           (''val'', JsonStr '''')]])]))]"
  using create_request_bodies
          [of dana_draft "[[(''Full Name'', JStr ''Carl'')]]" "\<lambda>k. Rejected" "\<lambda>k. 1700000000000"
              "[(''Full Name'', JStr ''Carl'')]" 1700000000000 "Response True None" Rejected]
  by (simp add: run_defs row_defs)

text \<open>
  The request that Save sends for the draft \<open>dana_draft\<close>, opened by the Add button: its body
  has the member \<^verbatim>\<open>id\<close>, with the value \<^verbatim>\<open>null\<close>.
\<close>

theorem create_body_has_null_id:
  "snd (saveContact dana_draft 1700000000000 Pending Pending)
   = [Fetch POST ApiUrl
        (Some (JsonObj [(''id'', JsonNull), (''name'', JsonStr ''Dana''),
                        (''isFav'', JsonBool False),
                        (''methods'', JsonArr [JsonObj [(''type'', JsonStr ''Phone''),
                                                       (''val'', JsonStr '''')]])]))]
   \<and> has_member
        (JsonObj [(''id'', JsonNull), (''name'', JsonStr ''Dana''), (''isFav'', JsonBool False),
                  (''methods'', JsonArr [JsonObj [(''type'', JsonStr ''Phone''),
                                                 (''val'', JsonStr '''')]])])
        ''id''"
  by (simp add: run_defs has_member_def)

section \<open>Editing a draft and cancelling\<close>

text \<open>
  Opening the form on a contact makes the draft that contact: its \<^verbatim>\<open>methods\<close> array holds the
  addresses of the same method objects. Adding or removing a method builds a new array and
  leaves the store as it was.
\<close>

lemma openForm_shares_methods:
  "formData (openForm s (Some c)) = c \<and> heap (openForm s (Some c)) = heap s
   \<and> contacts (openForm s (Some c)) = contacts s"
  by (simp add: openForm_def)

lemma removeMethod_keeps_store:
  "heap (removeMethod s i) = heap s \<and> contacts (removeMethod s i) = contacts s"
  by (simp add: removeMethod_def Let_def)

lemma addMethodField_extends_store:
  "heap (addMethodField s) = heap s @ [blank_method] \<and> contacts (addMethodField s) = contacts s"
  by (simp add: addMethodField_def)

text \<open>A method edit writes the store at the address the draft holds at that position.\<close>

lemma updateMethod_writes_store:
  "i < length (methods (formData s)) \<Longrightarrow>
   \<exists>s'. updateMethod s i FVal v = Inr s'
        \<and> heap s' = (heap s)[methods (formData s) ! i := (heap s ! (methods (formData s) ! i))\<lparr>val := JStr v\<rparr>]
        \<and> contacts s' = contacts s"
  by (simp add: updateMethod_def Let_def)

text \<open>
  C3, on the placeholder collection: the form is opened on the first contact, the value of
  its first method is edited to 999, and Cancel is pressed. The view is the list again, and
  the first contact of the collection now has the edited value: the edit was written to the
  method object that the contact and the draft share.
\<close>

theorem cancel_keeps_method_edit:
  "map (deref (heap offline)) (contacts offline) = placeholders
   \<and> (case updateMethod (openForm offline (Some (contacts offline ! 0))) 0 FVal ''999'' of
         Inl e \<Rightarrow> None
       | Inr s \<Rightarrow> Some (view (cancel s), map (deref (heap (cancel s))) (contacts (cancel s))))
     = Some (ListView,
         [\<lparr>id' = JNum 1, name = JStr ''Alice Chen (Offline)'', isFav = True,
           methods = [\<lparr>type = JStr ''Phone'', val = JStr ''999''\<rparr>]\<rparr>,
          \<lparr>id' = JNum 2, name = JStr ''Bob Jones (Offline)'', isFav = False,
           methods = [\<lparr>type = JStr ''Email'', val = JStr ''bob@example.com''\<rparr>]\<rparr>])"
  by (simp add: run_defs)

section \<open>A failed fetch\<close>

text \<open>
  What a failed fetch does to the collection is decided by the collection of \<open>r\<close>, the state of
  the render whose closure runs, and not by the collection of the current state \<open>s\<close>.
\<close>

lemma fetchContacts_failed:
  assumes "resp = Rejected \<or> (\<exists>b. resp = Response False b) \<or> resp = Response True None"
  shows "contacts (fst (fetchContacts r s resp))
         = (if contacts r = [] then snd (alloc_all (heap s) placeholders) else contacts s)"
  using assms by (auto simp: fetchContacts_def Let_def split_def)

text \<open>
  C10, on the draft \<open>dana_draft\<close>, made while the collection was empty. Save appends the
  contact to the collection at once (first equation: the state while the POST is pending);
  the POST succeeds and the refresh that follows is rejected. The closure that runs the
  refresh is the one of the render in which Save was pressed, whose \<^verbatim>\<open>contacts\<close> is the empty
  collection, so line 52 finds it empty and the placeholders replace the collection that
  holds the saved contact (second equation).
\<close>

theorem failed_refresh_replaces_saved_contact:
  "map (deref (heap (fst (saveContact dana_draft 1700000000000 Pending Pending))))
       (contacts (fst (saveContact dana_draft 1700000000000 Pending Pending)))
     = [\<lparr>id' = JNum 1700000000000, name = JStr ''Dana'', isFav = False,
         methods = [\<lparr>type = JStr ''Phone'', val = JStr ''''\<rparr>]\<rparr>]
   \<and> map (deref (heap (fst (saveContact dana_draft 1700000000000 (Response True None) Rejected))))
         (contacts (fst (saveContact dana_draft 1700000000000 (Response True None) Rejected)))
     = placeholders"
  by (simp add: run_defs)

end
